theory Spec2Isabelle
  imports Complex_Main
begin

section \<open>Data model\<close>

text \<open>
  The recommendation services of Spotal-BE, embedded shallowly.  Python \<open>float\<close> values
  (embedding components, similarity scores) are modelled by \<open>real\<close>: the statements below
  concern guards, filters, ordering and bounds, not rounding.  Python \<open>str\<close> is
  \<open>string\<close>, \<open>Optional[int]\<close> is \<open>int option\<close>, an exception is the \<open>Inl\<close> branch of
  a sum.
\<close>

datatype error = ProviderError | ZeroDivisionError | ValueError

text \<open>
  Rows of the tables the services read.  \<open>Place.emotions\<close> (many-to-many) is the list of
  the emotion names of the place, \<open>Place.location\<close> (nullable foreign key) the name of its
  location, \<open>ai_summary\<close> the text of its latest \<open>AISummary\<close> row, if any.  The \<open>users\<close>
  table is the list of the user ids, the \<open>Emotion\<close> table the list of the emotion names.
\<close>

record place =
  shop_id :: int
  name :: string
  address :: string
  location :: "string option"
  emotions :: "string list"
  google_place_id :: "string option"
  photo_reference :: string
  ai_summary :: "string option"
  google_rating :: real
  place_types :: "string list"
  status :: string

record place_embedding =
  pe_shop_id :: int
  pe_vector :: "real list"

record saved_place =
  sp_user_id :: int
  sp_shop_id :: int
  sp_rec :: int

record db =
  places :: "place list"
  embeddings :: "place_embedding list"
  saved_places :: "saved_place list"
  users :: "int list"
  emotion_table :: "string list"

section \<open>embedding\_service.py\<close>

text \<open>
  \<open>cosine_similarity\<close>: the guard, the accumulation loop over \<open>zip(vec_a, vec_b)\<close>, the
  zero-norm guard and the final division.  Python's \<open>/\<close> on floats raises
  \<open>ZeroDivisionError\<close> for a zero divisor; \<open>x ** 0.5\<close> of a non-negative float is its
  square root.
\<close>

definition py_div :: "real \<Rightarrow> real \<Rightarrow> error + real" where
  "py_div x y = (if y = 0 then Inl ZeroDivisionError else Inr (x / y))"

fun cosine_loop :: "(real \<times> real) list \<Rightarrow> real \<times> real \<times> real \<Rightarrow> real \<times> real \<times> real" where
  "cosine_loop [] acc = acc"
| "cosine_loop ((a, b) # ps) (dot, norm_a, norm_b) =
     cosine_loop ps (dot + a * b, norm_a + a * a, norm_b + b * b)"

definition cosine_similarity :: "real list \<Rightarrow> real list \<Rightarrow> error + real" where
  "cosine_similarity vec_a vec_b =
     (if vec_a = [] \<or> vec_b = [] \<or> length vec_a \<noteq> length vec_b then Inr 0
      else
        (case cosine_loop (zip vec_a vec_b) (0, 0, 0) of
          (dot, norm_a, norm_b) \<Rightarrow>
            if norm_a = 0 \<or> norm_b = 0 then Inr 0
            else py_div dot (sqrt norm_a * sqrt norm_b)))"

section \<open>Queries of the ORM\<close>

text \<open>
  \<open>icontains\<close> is a case-insensitive substring test; case folding is modelled on the
  ASCII letters.  An empty pattern is contained in every string.
\<close>

definition lower_chr :: "char \<Rightarrow> char" where
  "lower_chr c =
     (let n = (of_char c :: nat) in if 65 \<le> n \<and> n \<le> 90 then char_of (n + 32) else c)"

definition py_lower :: "string \<Rightarrow> string" where
  "py_lower s = map lower_chr s"

fun contains :: "string \<Rightarrow> string \<Rightarrow> bool" where
  "contains [] sub = (sub = [])"
| "contains (c # cs) sub = (take (length sub) (c # cs) = sub \<or> contains cs sub)"

definition icontains :: "string \<Rightarrow> string \<Rightarrow> bool" where
  "icontains field pat = contains (py_lower field) (py_lower pat)"

text \<open>\<open>if user_id:\<close> on an \<open>Optional[int]\<close>: \<open>None\<close> and \<open>0\<close> are falsy.\<close>

fun truthy_id :: "int option \<Rightarrow> bool" where
  "truthy_id None = False"
| "truthy_id (Some u) = (u \<noteq> 0)"

text \<open>\<open>Place.objects.filter(Q(name__icontains=name) | Q(address__icontains=address))\<close>\<close>

definition similar_places :: "db \<Rightarrow> string \<Rightarrow> string \<Rightarrow> place list" where
  "similar_places d nm addr =
     filter (\<lambda>p. icontains (name p) nm \<or> icontains (address p) addr) (places d)"

text \<open>\<open>SavedPlace.objects.filter(user_id=user_id)\<close>\<close>

definition saved_of_user :: "db \<Rightarrow> int \<Rightarrow> saved_place list" where
  "saved_of_user d u = filter (\<lambda>s. sp_user_id s = u) (saved_places d)"

section \<open>rag\_service.py\<close>

subsection \<open>Python helpers\<close>

text \<open>\<open>xs[:k]\<close> for a Python \<open>int\<close>: a negative \<open>k\<close> drops the last \<open>-k\<close> elements.\<close>

definition py_take :: "int \<Rightarrow> 'a list \<Rightarrow> 'a list" where
  "py_take k xs = (if 0 \<le> k then take (nat k) xs else take (length xs - nat (- k)) xs)"

text \<open>\<open>sep.join(parts)\<close>\<close>

fun py_join :: "string \<Rightarrow> string list \<Rightarrow> string" where
  "py_join sep [] = []"
| "py_join sep [x] = x"
| "py_join sep (x # y # ys) = x @ sep @ py_join sep (y # ys)"

text \<open>
  The labels of the query text, as their UTF-8 bytes followed by \<open>": "\<close>:
  U+AC10 U+C815 ("emotion") and U+C9C0 U+C5ED ("region").
\<close>

definition emotion_label :: string where
  "emotion_label = map char_of [0xEA, 0xB0, 0x90, 0xEC, 0xA0, 0x95 :: nat] @ '': ''"

definition region_label :: string where
  "region_label = map char_of [0xEC, 0xA7, 0x80, 0xEC, 0x97, 0xAD :: nat] @ '': ''"

text \<open>
  \<open>defaultdict(int)\<close> with \<open>counts[k] += 1\<close>: a dictionary keeps its keys in the order
  of their first insertion, so it is an association list updated in place.
\<close>

type_synonym counts = "(string \<times> nat) list"

fun bump :: "string \<Rightarrow> counts \<Rightarrow> counts" where
  "bump k [] = [(k, 1)]"
| "bump k ((k', c) # kcs) = (if k = k' then (k', c + 1) # kcs else (k', c) # bump k kcs)"

definition tally :: "string list \<Rightarrow> counts" where
  "tally ks = fold bump ks []"

text \<open>
  \<open>sorted(items, key=lambda x: x[1], reverse=True)\<close>: Python's sort is stable, also with
  \<open>reverse=True\<close>; \<open>sort_key\<close> on the negated key is the same stable descending sort.
\<close>

definition sorted_by_count_desc :: "counts \<Rightarrow> counts" where
  "sorted_by_count_desc kcs = sort_key (\<lambda>kc. - int (snd kc)) kcs"

subsection \<open>The user context\<close>

text \<open>
  \<open>SavedPlace.objects.filter(user=user).select_related('shop')\<close>: the saved rows of the
  user joined with their place (an inner join on the foreign key).
\<close>

definition place_by_id :: "db \<Rightarrow> int \<Rightarrow> place option" where
  "place_by_id d i = find (\<lambda>p. shop_id p = i) (places d)"

definition saved_shops :: "db \<Rightarrow> int \<Rightarrow> place list" where
  "saved_shops d u = List.map_filter (\<lambda>s. place_by_id d (sp_shop_id s)) (saved_of_user d u)"

text \<open>
  The context dictionary of \<open>build_user_context\<close>; of each \<open>saved_places\<close> entry the
  place is kept (its emotions and location are fields of the place), and
  \<open>recent_activity\<close>, which stays empty, is left out.
\<close>

record user_context =
  ctx_saved_places :: "place list"
  preferred_emotions :: counts
  location_preferences :: counts

definition build_user_context :: "db \<Rightarrow> int \<Rightarrow> user_context" where
  "build_user_context d u =
     (let shops = saved_shops d u;
          emotion_counts = tally (concat (map emotions shops));
          location_counts = tally (List.map_filter location shops)
      in \<lparr> ctx_saved_places = shops,
           preferred_emotions = take 5 (sorted_by_count_desc emotion_counts),
           location_preferences = take 3 (sorted_by_count_desc location_counts) \<rparr>)"

definition build_enhanced_query :: "string \<Rightarrow> user_context \<Rightarrow> string" where
  "build_enhanced_query query ctx =
     py_join '' ''
       ([query]
        @ (if preferred_emotions ctx \<noteq> []
           then [emotion_label @ py_join '', '' (map fst (take 3 (preferred_emotions ctx)))]
           else [])
        @ (if location_preferences ctx \<noteq> []
           then [region_label @ py_join '', '' (map fst (take 2 (location_preferences ctx)))]
           else []))"

subsection \<open>Hybrid search\<close>

text \<open>
  \<open>PlaceEmbedding.objects.select_related('place')\<close>: every embedding with its place.
  A filter list that is \<open>None\<close> or empty is falsy and filters nothing; a non-empty one
  keeps the rows whose place has an emotion (a location) named in it, and \<open>distinct()\<close>
  keeps each row once.
\<close>

definition embedding_rows :: "db \<Rightarrow> (place_embedding \<times> place) list" where
  "embedding_rows d =
     List.map_filter (\<lambda>e. map_option (Pair e) (place_by_id d (pe_shop_id e))) (embeddings d)"

fun emotion_match :: "string list option \<Rightarrow> place \<Rightarrow> bool" where
  "emotion_match None p = True"
| "emotion_match (Some names) p =
     (if names \<noteq> [] then list_ex (\<lambda>e. e \<in> set names) (emotions p) else True)"

fun location_match :: "string list option \<Rightarrow> place \<Rightarrow> bool" where
  "location_match None p = True"
| "location_match (Some names) p =
     (if names \<noteq> []
      then (case location p of None \<Rightarrow> False | Some l \<Rightarrow> l \<in> set names)
      else True)"

definition embeddings_query ::
  "db \<Rightarrow> string list option \<Rightarrow> string list option \<Rightarrow> (place_embedding \<times> place) list" where
  "embeddings_query d emotion_filters location_filters =
     filter (\<lambda>r. location_match location_filters (snd r))
       (filter (\<lambda>r. emotion_match emotion_filters (snd r)) (embedding_rows d))"

text \<open>
  The weights added to the similarity of one candidate: \<open>0.1 * (count / 10)\<close> for every
  preferred emotion the place has, \<open>0.05 * (count / 10)\<close> for every preferred location
  equal to the location of the place.
\<close>

definition emotion_weight :: "user_context \<Rightarrow> place \<Rightarrow> real" where
  "emotion_weight ctx p =
     sum_list (map (\<lambda>ec. if fst ec \<in> set (emotions p) then 0.1 * (real (snd ec) / 10) else 0)
       (preferred_emotions ctx))"

definition location_weight :: "user_context \<Rightarrow> place \<Rightarrow> real" where
  "location_weight ctx p =
     (case location p of
        None \<Rightarrow> 0
      | Some l \<Rightarrow>
          sum_list (map (\<lambda>lc. if l = fst lc then 0.05 * (real (snd lc) / 10) else 0)
            (location_preferences ctx)))"

definition weighted_score :: "db \<Rightarrow> int option \<Rightarrow> place \<Rightarrow> real \<Rightarrow> real" where
  "weighted_score d user p similarity =
     (case user of
        None \<Rightarrow> similarity
      | Some u \<Rightarrow>
          (let ctx = build_user_context d u
           in similarity + emotion_weight ctx p + location_weight ctx p))"

text \<open>The loop over the candidate rows; an exception of a step ends the loop.\<close>

fun score_rows ::
  "db \<Rightarrow> int option \<Rightarrow> real list \<Rightarrow> (place_embedding \<times> place) list \<Rightarrow> error + (place \<times> real) list" where
  "score_rows d user query_vector [] = Inr []"
| "score_rows d user query_vector ((e, p) # rows) =
     (case cosine_similarity query_vector (pe_vector e) of
        Inl err \<Rightarrow> Inl err
      | Inr similarity \<Rightarrow>
          (case score_rows d user query_vector rows of
             Inl err \<Rightarrow> Inl err
           | Inr results \<Rightarrow> Inr ((p, weighted_score d user p similarity) # results)))"

text \<open>\<open>results.sort(key=lambda x: x[1], reverse=True)\<close>\<close>

definition sort_by_score_desc :: "('a \<times> real) list \<Rightarrow> ('a \<times> real) list" where
  "sort_by_score_desc results = sort_key (\<lambda>r. - snd r) results"

text \<open>
  \<open>hybrid_search\<close>.  The embedding provider \<open>embed_text\<close> is a collaborator outside the
  repository: a function from the text to a vector, or an exception.  A given \<open>user\<close> is
  a \<open>User\<close> object, which is truthy; it is modelled by its id.
\<close>

definition hybrid_search ::
  "(string \<Rightarrow> error + real list) \<Rightarrow> db \<Rightarrow> string \<Rightarrow> int option \<Rightarrow> string list option
     \<Rightarrow> string list option \<Rightarrow> int \<Rightarrow> error + (place \<times> real) list" where
  "hybrid_search embed_text d query user emotion_filters location_filters top_k =
     (case embed_text query of
        Inl err \<Rightarrow> Inl err
      | Inr query_vector0 \<Rightarrow>
          (case (case user of
                   None \<Rightarrow> Inr query_vector0
                 | Some u \<Rightarrow> embed_text (build_enhanced_query query (build_user_context d u))) of
             Inl err \<Rightarrow> Inl err
           | Inr query_vector \<Rightarrow>
               (case score_rows d user query_vector
                       (embeddings_query d emotion_filters location_filters) of
                  Inl err \<Rightarrow> Inl err
                | Inr results \<Rightarrow> Inr (py_take top_k (sort_by_score_desc results)))))"

section \<open>optimized\_rag\_service.py: the batch similarity pass\<close>

text \<open>
  NumPy on the candidate matrix.  \<open>np.array\<close> of rows of unequal length and \<open>np.dot\<close> of
  a matrix with a vector of another length raise \<open>ValueError\<close>.  NumPy's division does
  not raise: a zero divisor here is the product of the norms, so one of the two vectors
  is all-zero, the dot product is \<open>0\<close> and the quotient is \<open>nan\<close>, which is \<open>None\<close> below.
\<close>

definition np_dot :: "real list \<Rightarrow> real list \<Rightarrow> real" where
  "np_dot v q = sum_list (map (\<lambda>ab. fst ab * snd ab) (zip v q))"

definition np_norm :: "real list \<Rightarrow> real" where
  "np_norm v = sqrt (sum_list (map (\<lambda>x. x * x) v))"

definition np_divide :: "real \<Rightarrow> real \<Rightarrow> real option" where
  "np_divide x y = (if y = 0 then None else Some (x / y))"

text \<open>
  \<open>np.argsort\<close>: the indices in ascending order of the values, \<open>nan\<close> last.  The order
  NumPy gives to equal values is not fixed by its default sort; here it is the stable one.
\<close>

definition np_argsort :: "real option list \<Rightarrow> nat list" where
  "np_argsort xs =
     sort_key (\<lambda>i. the (xs ! i)) (filter (\<lambda>i. xs ! i \<noteq> None) [0..<length xs])
     @ filter (\<lambda>i. xs ! i = None) [0..<length xs]"

text \<open>\<open>similarities[idx] > 0\<close>: false for \<open>nan\<close>.\<close>

fun np_positive :: "real option \<Rightarrow> bool" where
  "np_positive None = False"
| "np_positive (Some x) = (0 < x)"


definition batch_similarity_calculation ::
  "real list \<Rightarrow> (place_embedding \<times> place) list \<Rightarrow> int \<Rightarrow> error + (place \<times> real) list" where
  "batch_similarity_calculation query_vector embs top_k =
     (if embs = [] then Inr []
      else if list_ex (\<lambda>e. length (pe_vector (fst e)) \<noteq> length query_vector) embs
      then Inl ValueError
      else
        (let similarities =
               map (\<lambda>e. np_divide (np_dot (pe_vector (fst e)) query_vector)
                            (np_norm (pe_vector (fst e)) * np_norm query_vector)) embs;
             top_indices = py_take top_k (rev (np_argsort similarities))
         in Inr (map (\<lambda>idx. (snd (embs ! idx), the (similarities ! idx)))
                  (filter (\<lambda>idx. np_positive (similarities ! idx)) top_indices))))"

section \<open>smart\_hybrid\_service.py: the source-selection policy\<close>

text \<open>
  \<open>_should_use_rag\<close>: each rule returns \<open>True\<close> as soon as it holds; the saved-place
  count is only queried for a truthy \<open>user_id\<close>.
\<close>

definition should_use_rag :: "db \<Rightarrow> string \<Rightarrow> string \<Rightarrow> string list \<Rightarrow> int option \<Rightarrow> bool" where
  "should_use_rag d nm addr emotion_tags user_id =
     (if (case user_id of None \<Rightarrow> False
          | Some u \<Rightarrow> u \<noteq> 0 \<and> 3 \<le> length (saved_of_user d u)) then True
      else if 2 \<le> length (similar_places d nm addr) then True
      else if 10 \<le> length (embeddings d) then True
      else False)"

section \<open>smart\_hybrid\_service.py: the recommendation call\<close>

text \<open>
  A result dictionary.  The services build it flat, or with the place fields nested
  under \<open>'place'\<close>; the keys are the same, and a key a service does not set is \<open>None\<close>.
\<close>

record result =
  r_shop_id :: int
  r_name :: string
  r_address :: string
  r_image_url :: string
  r_summary :: string
  r_emotions :: "string list"
  r_location :: "string option"
  r_google_place_id :: "string option"
  r_google_rating :: real
  r_place_types :: "string list"
  r_status :: string
  r_source :: string
  r_rag_score :: "real option"
  r_is_rag_result :: "bool option"

text \<open>
  Django's cache: the result lists stored under the \<open>..._rec:\<close> keys and the name lists
  stored under the \<open>emotions:\<close> keys.  Entries are read within their time-to-live.
\<close>

record cache =
  rec_entries :: "string \<Rightarrow> result list option"
  emotion_entries :: "string \<Rightarrow> string list option"

record state =
  st_db :: db
  st_cache :: cache

text \<open>
  What the services call outside the repository's files: the embedding provider, the
  emotion expansion, the photo URL builder, Python's \<open>hash\<close> of a string and of a tuple
  and its formatting of a list of strings, and the Google paths of the three services
  (\<open>_get_google_recommendations\<close>, \<open>_get_google_places\<close>, \<open>_get_basic_google_places\<close>
  with \<open>_add_details_to_top_places\<close>), which are built from the place-search, detail,
  translation, summary and tagging collaborators and write the place tables; each of
  them catches its own exceptions and always returns a list.
\<close>

record env =
  embed_text :: "string \<Rightarrow> error + real list"
  expand_emotions_with_gpt :: "string list \<Rightarrow> error + string list"
  get_photo_url :: "string \<Rightarrow> error + string"
  str_hash :: "string \<Rightarrow> int"
  tuple_hash :: "string list \<Rightarrow> int"
  repr_list :: "string list \<Rightarrow> string"
  get_google_recommendations ::
    "state \<Rightarrow> string \<Rightarrow> string \<Rightarrow> string list \<Rightarrow> string \<Rightarrow> int \<Rightarrow> result list \<times> state"
  get_google_places ::
    "state \<Rightarrow> string \<Rightarrow> string list \<Rightarrow> string \<Rightarrow> int \<Rightarrow> result list \<times> state"
  get_basic_google_places ::
    "state \<Rightarrow> string \<Rightarrow> string \<Rightarrow> string list \<Rightarrow> string \<Rightarrow> int \<Rightarrow> result list \<times> state"
  add_details_to_top_places ::
    "state \<Rightarrow> result list \<Rightarrow> string list \<Rightarrow> result list \<times> state"

text \<open>\<open>str\<close> of an \<open>int\<close> and of an \<open>Optional[int]\<close>\<close>

fun digits_of :: "nat \<Rightarrow> string" where
  "digits_of n =
     (if n < 10 then [char_of (48 + n)] else digits_of (n div 10) @ [char_of (48 + n mod 10)])"

declare digits_of.simps [simp del]

definition py_str_int :: "int \<Rightarrow> string" where
  "py_str_int i = (if i < 0 then CHR ''-'' # digits_of (nat (- i)) else digits_of (nat i))"

fun py_str_opt_int :: "int option \<Rightarrow> string" where
  "py_str_opt_int None = ''None''"
| "py_str_opt_int (Some i) = py_str_int i"

text \<open>\<open>f"smart_rec:{hash(f'{name}{address}{emotion_tags}{user_id}')}"\<close>\<close>

definition smart_cache_key :: "env \<Rightarrow> string \<Rightarrow> string \<Rightarrow> string list \<Rightarrow> int option \<Rightarrow> string" where
  "smart_cache_key env nm addr emotion_tags user_id =
     ''smart_rec:'' @ py_str_int (str_hash env (nm @ addr @ repr_list env emotion_tags @ py_str_opt_int user_id))"

text \<open>\<open>cache.get(key)\<close> followed by \<open>if cached:\<close>: an empty list is falsy, hence a miss.\<close>

definition cache_hit :: "'a list option \<Rightarrow> 'a list option" where
  "cache_hit entry = (case entry of None \<Rightarrow> None | Some v \<Rightarrow> if v = [] then None else Some v)"

text \<open>
  \<open>_get_cached_emotions\<close>, returning the names of the emotions (its callers read only
  \<open>e.name\<close>) and the cache.
\<close>

definition get_cached_emotions :: "env \<Rightarrow> state \<Rightarrow> string list \<Rightarrow> error + (string list \<times> state)" where
  "get_cached_emotions env st emotion_tags =
     (let cache_key = ''emotions:'' @ py_str_int (tuple_hash env emotion_tags)
      in case cache_hit (emotion_entries (st_cache st) cache_key) of
           Some cached_emotions \<Rightarrow>
             Inr (filter (\<lambda>n. n \<in> set cached_emotions) (emotion_table (st_db st)), st)
         | None \<Rightarrow>
             (case expand_emotions_with_gpt env emotion_tags of
                Inl err \<Rightarrow> Inl err
              | Inr emotion_names \<Rightarrow>
                  Inr (emotion_names,
                       st\<lparr>st_cache := (st_cache st)\<lparr>emotion_entries :=
                         (emotion_entries (st_cache st))(cache_key \<mapsto> emotion_names)\<rparr>\<rparr>)))"

text \<open>
  The summary used when a place has no \<open>AISummary\<close>:
  \<open>f"{place.name}<U+C740> {place.address}<U+C5D0 U+C704 U+CE58 U+D55C ...>"\<close>, the
  literal parts as their UTF-8 bytes.
\<close>

definition default_summary :: "place \<Rightarrow> string" where
  "default_summary p =
     name p @ map char_of [0xEC, 0x9D, 0x80, 0x20 :: nat] @ address p
     @ map char_of [0xEC, 0x97, 0x90, 0x20, 0xEC, 0x9C, 0x84, 0xEC, 0xB9, 0x98, 0xED, 0x95, 0x9C, 0x20,
         0xEA, 0xB0, 0x80, 0xEA, 0xB2, 0x8C, 0xEC, 0x9E, 0x85, 0xEB, 0x8B, 0x88, 0xEB, 0x8B, 0xA4 :: nat]"

text \<open>
  One place as a result dictionary; \<open>get_photo_url\<close> is called for a non-empty photo
  reference and may raise.
\<close>

definition place_result :: "env \<Rightarrow> place \<Rightarrow> string \<Rightarrow> real option \<Rightarrow> error + result" where
  "place_result env p source score =
     (case (if photo_reference p \<noteq> [] then get_photo_url env (photo_reference p) else Inr []) of
        Inl err \<Rightarrow> Inl err
      | Inr image_url \<Rightarrow>
          Inr \<lparr> r_shop_id = shop_id p, r_name = name p, r_address = address p,
                r_image_url = image_url,
                r_summary = (case ai_summary p of Some t \<Rightarrow> t | None \<Rightarrow> default_summary p),
                r_emotions = emotions p, r_location = location p,
                r_google_place_id = google_place_id p, r_google_rating = google_rating p,
                r_place_types = place_types p, r_status = status p,
                r_source = source, r_rag_score = score, r_is_rag_result = None \<rparr>)"

text \<open>The loops \<open>try: results.append(...) except Exception: continue\<close>.\<close>

definition collect_results :: "('a \<Rightarrow> error + result) \<Rightarrow> 'a list \<Rightarrow> result list" where
  "collect_results f xs = List.map_filter (\<lambda>x. case f x of Inl err \<Rightarrow> None | Inr r \<Rightarrow> Some r) xs"

text \<open>\<open>User.objects.get(id=user_id)\<close> for a truthy id; \<open>DoesNotExist\<close> leaves \<open>None\<close>.\<close>

definition lookup_user :: "db \<Rightarrow> int option \<Rightarrow> int option" where
  "lookup_user d user_id =
     (case user_id of
        None \<Rightarrow> None
      | Some u \<Rightarrow> if u \<noteq> 0 \<and> u \<in> set (users d) then Some u else None)"

definition rag_query :: "string \<Rightarrow> string \<Rightarrow> string list \<Rightarrow> string" where
  "rag_query nm addr emotion_names =
     py_join '' ''
       ([nm] @ (if emotion_names \<noteq> [] then [emotion_label @ py_join '', '' emotion_names] else [])
        @ [region_label @ addr])"

text \<open>
  \<open>_get_rag_recommendations\<close>: any exception of the emotion expansion or of the search
  is caught and the function returns the empty list.
\<close>

definition get_rag_recommendations ::
  "env \<Rightarrow> state \<Rightarrow> string \<Rightarrow> string \<Rightarrow> string list \<Rightarrow> int option \<Rightarrow> int \<Rightarrow> result list \<times> state" where
  "get_rag_recommendations env st nm addr emotion_tags user_id top_k =
     (let user = lookup_user (st_db st) user_id
      in case get_cached_emotions env st emotion_tags of
           Inl err \<Rightarrow> ([], st)
         | Inr (emotion_names, st') \<Rightarrow>
             (case hybrid_search (embed_text env) (st_db st') (rag_query nm addr emotion_names) user
                     (Some emotion_names) None (min 5 top_k) of
                Inl err \<Rightarrow> ([], st')
              | Inr rag_results \<Rightarrow>
                  (collect_results (\<lambda>ps. place_result env (fst ps) ''rag'' (Some (snd ps))) rag_results,
                   st')))"

text \<open>
  \<open>_get_supplement_recommendations\<close>: the first \<open>needed_count\<close> stored places matching
  the keywords; slicing a query set by a negative bound raises, which is caught.
\<close>

definition get_supplement_recommendations ::
  "env \<Rightarrow> db \<Rightarrow> string \<Rightarrow> string \<Rightarrow> string list \<Rightarrow> int option \<Rightarrow> int \<Rightarrow> result list" where
  "get_supplement_recommendations env d nm addr emotion_tags user_id needed_count =
     (if needed_count < 0 then []
      else collect_results (\<lambda>p. place_result env p ''db_supplement'' None)
             (take (nat needed_count) (similar_places d nm addr)))"

text \<open>
  \<open>SavedPlace.objects.filter(user_id=user_id, rec=1).values_list("shop_id", flat=True)\<close>
  and the list comprehension that drops the results saved by the user.
\<close>

definition saved_shop_ids :: "db \<Rightarrow> int \<Rightarrow> int list" where
  "saved_shop_ids d u = map sp_shop_id (filter (\<lambda>s. sp_user_id s = u \<and> sp_rec s = 1) (saved_places d))"

fun exclude_saved :: "db \<Rightarrow> int option \<Rightarrow> result list \<Rightarrow> result list" where
  "exclude_saved d None results = results"
| "exclude_saved d (Some u) results =
     (if u \<noteq> 0 then filter (\<lambda>r. r_shop_id r \<notin> set (saved_shop_ids d u)) results else results)"

definition cache_set :: "state \<Rightarrow> string \<Rightarrow> result list \<Rightarrow> state" where
  "cache_set st cache_key v =
     st\<lparr>st_cache := (st_cache st)\<lparr>rec_entries := (rec_entries (st_cache st))(cache_key \<mapsto> v)\<rparr>\<rparr>"

text \<open>
  Step 2 of \<open>generate_smart_recommendations\<close>: \<open>if len(results) < top_k:\<close> the
  supplement is appended with \<open>results.extend\<close>.
\<close>

definition merge_supplement ::
  "env \<Rightarrow> db \<Rightarrow> string \<Rightarrow> string \<Rightarrow> string list \<Rightarrow> int option \<Rightarrow> int \<Rightarrow> result list \<Rightarrow> result list" where
  "merge_supplement env d nm addr emotion_tags user_id top_k results =
     (if int (length results) < top_k
      then results @ get_supplement_recommendations env d nm addr emotion_tags user_id
                       (top_k - int (length results))
      else results)"

text \<open>
  \<open>generate_smart_recommendations\<close>.  Every function called inside its \<open>try\<close> catches
  its own exceptions, so the outer handler (which returns the empty list) has no
  exception of the modelled collaborators to catch.
\<close>

definition generate_smart_recommendations ::
  "env \<Rightarrow> state \<Rightarrow> string \<Rightarrow> string \<Rightarrow> string list \<Rightarrow> int option \<Rightarrow> string \<Rightarrow> int \<Rightarrow> result list \<times> state" where
  "generate_smart_recommendations env st nm addr emotion_tags user_id category top_k =
     (let cache_key = smart_cache_key env nm addr emotion_tags user_id
      in case cache_hit (rec_entries (st_cache st) cache_key) of
           Some cached_result \<Rightarrow> (cached_result, st)
         | None \<Rightarrow>
             (let use_rag = should_use_rag (st_db st) nm addr emotion_tags user_id;
                  (results, st1) =
                    (if use_rag
                     then get_rag_recommendations env st nm addr emotion_tags user_id top_k
                     else get_google_recommendations env st nm addr emotion_tags category top_k);
                  merged = merge_supplement env (st_db st1) nm addr emotion_tags user_id top_k results;
                  kept = exclude_saved (st_db st1) user_id merged
              in (py_take top_k kept, cache_set st1 cache_key kept)))"

section \<open>enhanced\_recommendation\_service.py\<close>

text \<open>
  \<open>_try_rag_search\<close>: the search with the expanded emotion names as filter; its results
  carry \<open>is_rag_result\<close> and the score; any exception gives the empty list.
\<close>

definition try_rag_search ::
  "env \<Rightarrow> db \<Rightarrow> string \<Rightarrow> string \<Rightarrow> string list \<Rightarrow> int option \<Rightarrow> int \<Rightarrow> result list" where
  "try_rag_search env d nm addr emotion_names user top_k =
     (case hybrid_search (embed_text env) d (rag_query nm addr emotion_names) user
             (Some emotion_names) None top_k of
        Inl err \<Rightarrow> []
      | Inr rag_results \<Rightarrow>
          collect_results
            (\<lambda>ps. case place_result env (fst ps) ''rag'' (Some (snd ps)) of
                    Inl err \<Rightarrow> Inl err
                  | Inr r \<Rightarrow> Inr (r\<lparr>r_is_rag_result := Some True\<rparr>))
            rag_results)"

text \<open>
  \<open>generate_enhanced_recommendations\<close> has no cache and no handler of its own: an
  exception of the emotion expansion leaves the function.
\<close>

definition generate_enhanced_recommendations ::
  "env \<Rightarrow> state \<Rightarrow> string \<Rightarrow> string \<Rightarrow> string list \<Rightarrow> int option \<Rightarrow> string \<Rightarrow> int
     \<Rightarrow> error + (result list \<times> state)" where
  "generate_enhanced_recommendations env st nm addr emotion_tags user_id category top_k =
     (case expand_emotions_with_gpt env emotion_tags of
        Inl err \<Rightarrow> Inl err
      | Inr emotion_names \<Rightarrow>
          (let user = lookup_user (st_db st) user_id;
               rag_results = try_rag_search env (st_db st) nm addr emotion_names user top_k;
               (merged, st1) =
                 (if int (length rag_results) < top_k
                  then (case get_google_places env st addr emotion_names category
                               (top_k - int (length rag_results)) of
                          (google_results, st') \<Rightarrow> (rag_results @ google_results, st'))
                  else (rag_results, st));
               kept = exclude_saved (st_db st1) user_id merged
           in Inr (py_take top_k kept, st1)))"

section \<open>ultra\_fast\_service.py\<close>

text \<open>\<open>f"ultra_fast:{hash(f'{name}{address}{emotion_tags}{user_id}')}"\<close>\<close>

definition ultra_fast_cache_key :: "env \<Rightarrow> string \<Rightarrow> string \<Rightarrow> string list \<Rightarrow> int option \<Rightarrow> string" where
  "ultra_fast_cache_key env nm addr emotion_tags user_id =
     ''ultra_fast:'' @ py_str_int (str_hash env (nm @ addr @ repr_list env emotion_tags @ py_str_opt_int user_id))"

text \<open>
  \<open>generate_ultra_fast_recommendations\<close>: the first three basic results get details,
  \<open>_add_basic_info_to_places\<close> returns the others unchanged.
\<close>

definition generate_ultra_fast_recommendations ::
  "env \<Rightarrow> state \<Rightarrow> string \<Rightarrow> string \<Rightarrow> string list \<Rightarrow> int option \<Rightarrow> string \<Rightarrow> int \<Rightarrow> result list \<times> state" where
  "generate_ultra_fast_recommendations env st nm addr emotion_tags user_id category top_k =
     (let cache_key = ultra_fast_cache_key env nm addr emotion_tags user_id
      in case cache_hit (rec_entries (st_cache st) cache_key) of
           Some cached_result \<Rightarrow> (cached_result, st)
         | None \<Rightarrow>
             (let (basic_results, st1) =
                    get_basic_google_places env st nm addr emotion_tags category top_k;
                  (detailed_results, st2) =
                    add_details_to_top_places env st1 (take 3 basic_results) emotion_tags;
                  remaining_results = drop 3 basic_results;
                  all_results = detailed_results @ remaining_results;
                  kept = exclude_saved (st_db st2) user_id all_results
              in (py_take top_k kept, cache_set st2 cache_key kept)))"

section \<open>optimized\_rag\_service.py: the cache keys\<close>

text \<open>
  \<open>f"rag_search:{hash(query)}:{user.id if user else 'anon'}:{top_k}"\<close> of
  \<open>hybrid_search_optimized\<close> and
  \<open>f"enhanced_rec:{hash(f'{name}{address}{emotion_tags}{user_id}{category}')}"\<close> of
  \<open>generate_enhanced_recommendations_optimized\<close>.
\<close>

definition rag_search_cache_key :: "env \<Rightarrow> string \<Rightarrow> int option \<Rightarrow> int \<Rightarrow> string" where
  "rag_search_cache_key env query user top_k =
     ''rag_search:'' @ py_str_int (str_hash env query) @ '':''
     @ (case user of None \<Rightarrow> ''anon'' | Some u \<Rightarrow> py_str_int u) @ '':'' @ py_str_int top_k"

definition enhanced_rec_cache_key ::
  "env \<Rightarrow> string \<Rightarrow> string \<Rightarrow> string list \<Rightarrow> int option \<Rightarrow> string \<Rightarrow> string" where
  "enhanced_rec_cache_key env nm addr emotion_tags user_id category =
     ''enhanced_rec:''
     @ py_str_int (str_hash env (nm @ addr @ repr_list env emotion_tags @ py_str_opt_int user_id @ category))"

section \<open>Auxiliary notions of the proofs\<close>



section \<open>Example data\<close>

text \<open>Concrete tables on which the properties below are evaluated.\<close>

definition plain_place :: "int \<Rightarrow> string \<Rightarrow> string \<Rightarrow> string option \<Rightarrow> string list \<Rightarrow> place" where
  "plain_place i nm addr loc emos =
     \<lparr> shop_id = i, name = nm, address = addr, location = loc, emotions = emos,
       google_place_id = None, photo_reference = [], ai_summary = None, google_rating = 0,
       place_types = [], status = ''operating'' \<rparr>"

definition unit_embedding :: "int \<Rightarrow> place_embedding" where
  "unit_embedding i = \<lparr> pe_shop_id = i, pe_vector = [1, 0] \<rparr>"

text \<open>
  A database with \<open>n_saved\<close> places saved by user 7, \<open>n_similar\<close> places named
  "Cafe Onion" and \<open>n_embeddings\<close> embeddings.
\<close>

definition policy_db :: "nat \<Rightarrow> nat \<Rightarrow> nat \<Rightarrow> db" where
  "policy_db n_saved n_similar n_embeddings =
     \<lparr> places = replicate n_similar (plain_place 1 ''Cafe Onion'' ''Seongsu'' None [])
                @ [plain_place 2 ''Bakery'' ''Mapo'' None []],
       embeddings = replicate n_embeddings (unit_embedding 1),
       saved_places = replicate n_saved \<lparr> sp_user_id = 7, sp_shop_id = 2, sp_rec = 1 \<rparr>,
       users = [7], emotion_table = [] \<rparr>"


text \<open>
  Two candidates without a positive similarity to the query vector \<open>[1, 0]\<close>: one
  orthogonal to it, one opposite.
\<close>

definition nonpositive_db :: db where
  "nonpositive_db =
     \<lparr> places = [plain_place 1 ''P1'' ''A1'' None [], plain_place 2 ''P2'' ''A2'' None []],
       embeddings = [\<lparr> pe_shop_id = 1, pe_vector = [0, 1] \<rparr>,
                     \<lparr> pe_shop_id = 2, pe_vector = [- 1, 0] \<rparr>],
       saved_places = [], users = [], emotion_table = [] \<rparr>"




text \<open>
  Collaborators for the examples: the embedding of every text is \<open>[1, 0]\<close>, the emotion
  expansion returns no emotion, the hash of a string is its length, and the Google
  paths find nothing.  \<open>failing_env\<close> differs in the embedding provider, which raises.
\<close>

definition example_env :: env where
  "example_env =
     \<lparr> embed_text = (\<lambda>text. Inr [1, 0]),
       expand_emotions_with_gpt = (\<lambda>tags. Inr []),
       get_photo_url = (\<lambda>ref. Inr ref),
       str_hash = (\<lambda>text. int (length text)),
       tuple_hash = (\<lambda>tags. int (length tags)),
       repr_list = (\<lambda>tags. ''['' @ py_join '', '' tags @ '']''),
       get_google_recommendations = (\<lambda>st nm addr tags category k. ([], st)),
       get_google_places = (\<lambda>st addr names category k. ([], st)),
       get_basic_google_places = (\<lambda>st nm addr tags category k. ([], st)),
       add_details_to_top_places = (\<lambda>st results tags. (results, st)) \<rparr>"

definition failing_env :: env where
  "failing_env = example_env\<lparr> embed_text := (\<lambda>text. Inl ProviderError) \<rparr>"

definition empty_cache :: cache where
  "empty_cache = \<lparr> rec_entries = (\<lambda>k. None), emotion_entries = (\<lambda>k. None) \<rparr>"

text \<open>Two stored places, both with an embedding, both matching the keyword "onion".\<close>

definition onion_db :: db where
  "onion_db =
     \<lparr> places = [plain_place 1 ''Cafe Onion'' ''Seongsu'' None [],
                  plain_place 2 ''Onion Bakery'' ''Mapo'' None []],
       embeddings = [unit_embedding 1, unit_embedding 2],
       saved_places = [], users = [7], emotion_table = [] \<rparr>"

definition onion_state :: state where
  "onion_state = \<lparr> st_db = onion_db, st_cache = empty_cache \<rparr>"

text \<open>
  User 7 has three saved places; no stored place matches "onion" or "yongsan" and no
  embedding is stored.
\<close>

definition quiet_state :: state where
  "quiet_state = \<lparr> st_db = policy_db 3 0 0, st_cache = empty_cache \<rparr>"

text \<open>
  The onion database in which user 7 has saved place 1 through the recommendation
  channel (\<open>rec = 1\<close>); and the state reached from \<open>onion_state\<close> when user 7 asks for
  recommendations and then saves place 1.
\<close>

definition onion_saved_state :: state where
  "onion_saved_state =
     \<lparr> st_db = onion_db\<lparr>saved_places := [\<lparr> sp_user_id = 7, sp_shop_id = 1, sp_rec = 1 \<rparr>]\<rparr>,
       st_cache = empty_cache \<rparr>"

definition onion_state_after_save :: state where
  "onion_state_after_save =
     (let st1 = snd (generate_smart_recommendations example_env onion_state
                       ''onion'' ''seongsu'' [] (Some 7) ''cafe'' 8)
      in st1\<lparr>st_db := (st_db st1)\<lparr>saved_places := [\<lparr> sp_user_id = 7, sp_shop_id = 1, sp_rec = 1 \<rparr>]\<rparr>\<rparr>)"

section \<open>Properties of the similarity function\<close>

lemma cosine_loop_norm_a_zero:
  "list_all (\<lambda>p. fst p = 0) ps \<Longrightarrow> fst (snd (cosine_loop ps (d, na, nb))) = na"
  by (induction ps arbitrary: d na nb) auto

lemma cosine_loop_norm_b_zero:
  "list_all (\<lambda>p. snd p = 0) ps \<Longrightarrow> snd (snd (cosine_loop ps (d, na, nb))) = nb"
  by (induction ps arbitrary: d na nb) auto

lemma zip_all_fst: "\<forall>x\<in>set xs. P x \<Longrightarrow> list_all (\<lambda>p. P (fst p)) (zip xs ys)"
  by (auto simp: list_all_iff dest: set_zip_leftD)

lemma zip_all_snd: "\<forall>y\<in>set ys. P y \<Longrightarrow> list_all (\<lambda>p. P (snd p)) (zip xs ys)"
  by (auto simp: list_all_iff dest: set_zip_rightD)

text \<open>
  C2.  \<open>cosine_similarity q v\<close> returns exactly \<open>0.0\<close>, and raises nothing, whenever the
  lengths differ, or one of the vectors is empty, or one of them is all-zero (zero
  magnitude).
\<close>

theorem cosine_similarity_zero_guard:
  assumes "length q \<noteq> length v \<or> q = [] \<or> v = [] \<or> (\<forall>x\<in>set q. x = 0) \<or> (\<forall>x\<in>set v. x = 0)"
  shows "cosine_similarity q v = Inr 0"
proof (cases "q = [] \<or> v = [] \<or> length q \<noteq> length v")
  case True
  then show ?thesis by (simp add: cosine_similarity_def)
next
  case False
  with assms have z: "(\<forall>x\<in>set q. x = 0) \<or> (\<forall>x\<in>set v. x = 0)" by blast
  obtain dot na nb where l: "cosine_loop (zip q v) (0, 0, 0) = (dot, na, nb)"
    by (cases "cosine_loop (zip q v) (0, 0, 0)") auto
  from z have "na = 0 \<or> nb = 0"
  proof
    assume "\<forall>x\<in>set q. x = 0"
    then have "list_all (\<lambda>p. fst p = 0) (zip q v)" by (rule zip_all_fst)
    from cosine_loop_norm_a_zero [OF this, of 0 0 0] l show ?thesis by simp
  next
    assume "\<forall>x\<in>set v. x = 0"
    then have "list_all (\<lambda>p. snd p = 0) (zip q v)" by (rule zip_all_snd)
    from cosine_loop_norm_b_zero [OF this, of 0 0 0] l show ?thesis by simp
  qed
  with False l show ?thesis by (auto simp: cosine_similarity_def)
qed

theorem cosine_similarity_zero_guard_witness:
  "cosine_similarity [] [1, 2, 3] = Inr 0 \<and> cosine_similarity [0, 0] [1, 1] = Inr 0
   \<and> cosine_similarity [1, 2] [1, 2, 3] = Inr 0"
  using cosine_similarity_zero_guard [of "[]" "[1, 2, 3]"]
    cosine_similarity_zero_guard [of "[0, 0]" "[1, 1]"]
    cosine_similarity_zero_guard [of "[1, 2]" "[1, 2, 3]"]
  by simp

section \<open>Properties of the source-selection policy\<close>

text \<open>
  C1.  The policy chooses the internal (RAG) path if and only if a user is given and has
  at least 3 saved places, or at least 2 stored places have a name containing the query
  name or an address containing the query address, or at least 10 place embeddings are
  stored; otherwise it chooses the external path.  The rules are tried in this order and
  the first true one decides.
\<close>

theorem should_use_rag_iff:
  "should_use_rag d nm addr emotion_tags user_id \<longleftrightarrow>
     (\<exists>u. user_id = Some u \<and> u \<noteq> 0 \<and> 3 \<le> length (filter (\<lambda>s. sp_user_id s = u) (saved_places d)))
     \<or> 2 \<le> length (filter (\<lambda>p. icontains (name p) nm \<or> icontains (address p) addr) (places d))
     \<or> 10 \<le> length (embeddings d)"
  by (cases user_id) (auto simp: should_use_rag_def saved_of_user_def similar_places_def)

lemma icontains_examples:
  "icontains ''Cafe Onion'' ''onion''" "\<not> icontains ''Seongsu'' ''yongsan''"
  "\<not> icontains ''Bakery'' ''onion''" "\<not> icontains ''Mapo'' ''yongsan''"
  by code_simp+

theorem should_use_rag_iff_witness:
  "should_use_rag (policy_db 3 1 5) ''onion'' ''yongsan'' [] (Some 7)
   \<and> \<not> should_use_rag (policy_db 2 1 5) ''onion'' ''yongsan'' [] (Some 7)
   \<and> should_use_rag (policy_db 2 2 5) ''onion'' ''yongsan'' [] (Some 7)
   \<and> should_use_rag (policy_db 2 1 10) ''onion'' ''yongsan'' [] (Some 7)
   \<and> \<not> should_use_rag (policy_db 3 1 5) ''onion'' ''yongsan'' [] None"
  using should_use_rag_iff [of "policy_db 3 1 5" "''onion''" "''yongsan''" "[]" "Some 7"]
    should_use_rag_iff [of "policy_db 2 1 5" "''onion''" "''yongsan''" "[]" "Some 7"]
    should_use_rag_iff [of "policy_db 2 2 5" "''onion''" "''yongsan''" "[]" "Some 7"]
    should_use_rag_iff [of "policy_db 2 1 10" "''onion''" "''yongsan''" "[]" "Some 7"]
    should_use_rag_iff [of "policy_db 3 1 5" "''onion''" "''yongsan''" "[]" "None"]
  by (simp add: policy_db_def plain_place_def icontains_examples)

section \<open>Properties of the candidate filters\<close>


lemma set_py_take: "set (py_take k xs) \<subseteq> set xs"
  by (auto simp: py_take_def dest: in_set_takeD)











section \<open>Properties of the ranking\<close>

lemma embedding_rows_nonpositive_db:
  "embedding_rows nonpositive_db =
     [(\<lparr> pe_shop_id = 1, pe_vector = [0, 1] \<rparr>, plain_place 1 ''P1'' ''A1'' None []),
      (\<lparr> pe_shop_id = 2, pe_vector = [- 1, 0] \<rparr>, plain_place 2 ''P2'' ''A2'' None [])]"
  by (simp add: embedding_rows_def nonpositive_db_def place_by_id_def plain_place_def
      List.map_filter_simps)

lemma cosine_orthogonal: "cosine_similarity [1, 0] [0, 1] = Inr 0"
  by (simp add: cosine_similarity_def py_div_def)

lemma cosine_opposite: "cosine_similarity [1, 0] [- 1, 0] = Inr (- 1)"
  by (simp add: cosine_similarity_def py_div_def)

text \<open>
  C4.  The claim asks that only candidates with a strictly positive score appear in a
  result list of hybrid search.  \<open>hybrid_search\<close> appends every candidate: on
  \<open>nonpositive_db\<close> it returns one place with score \<open>0\<close> and one with score \<open>-1\<close>.
\<close>

theorem hybrid_search_returns_nonpositive_scores:
  "hybrid_search (\<lambda>text. Inr [1, 0]) nonpositive_db ''cafe'' None None None 10 =
     Inr [(plain_place 1 ''P1'' ''A1'' None [], 0), (plain_place 2 ''P2'' ''A2'' None [], - 1)]"
  by (simp add: hybrid_search_def embeddings_query_def embedding_rows_nonpositive_db
      cosine_orthogonal cosine_opposite weighted_score_def sort_by_score_desc_def py_take_def)

text \<open>The batch pass of the optimized service does keep the positive scores only.\<close>

lemma np_positive_the: "np_positive x \<Longrightarrow> 0 < the x"
  by (cases x) auto

lemma batch_similarity_positive:
  assumes "batch_similarity_calculation qv embs k = Inr results"
  shows "\<forall>r \<in> set results. 0 < snd r"
  using assms
  by (auto simp: batch_similarity_calculation_def Let_def np_positive_the split: if_splits)


section \<open>Properties of the user weighting\<close>








































section \<open>Properties of the recommendation call\<close>

lemma generate_smart_miss:
  assumes "cache_hit (rec_entries (st_cache st) (smart_cache_key env nm addr tags uid)) = None"
  shows "generate_smart_recommendations env st nm addr tags uid cat k =
     (let chosen = (if should_use_rag (st_db st) nm addr tags uid
                    then get_rag_recommendations env st nm addr tags uid k
                    else get_google_recommendations env st nm addr tags cat k);
          kept = exclude_saved (st_db (snd chosen)) uid
                   (merge_supplement env (st_db (snd chosen)) nm addr tags uid k (fst chosen))
      in (py_take k kept, cache_set (snd chosen) (smart_cache_key env nm addr tags uid) kept))"
  using assms by (simp add: generate_smart_recommendations_def Let_def split_beta)

lemma get_cached_emotions_db:
  "get_cached_emotions env st tags = Inr (names, st') \<Longrightarrow> st_db st' = st_db st"
  by (auto simp: get_cached_emotions_def Let_def split: option.splits sum.splits)

lemma get_rag_recommendations_db:
  "st_db (snd (get_rag_recommendations env st nm addr tags uid k)) = st_db st"
  by (auto simp: get_rag_recommendations_def Let_def split: sum.splits prod.splits
      dest: get_cached_emotions_db)

lemma hybrid_search_provider_failure:
  "embed_fn query = Inl err \<Longrightarrow> hybrid_search embed_fn d query user ef lf k = Inl err"
  by (simp add: hybrid_search_def)

lemma get_rag_provider_failure:
  assumes "\<And>text. embed_text env text = Inl err"
  shows "fst (get_rag_recommendations env st nm addr tags uid k) = []"
  by (auto simp: get_rag_recommendations_def Let_def hybrid_search_provider_failure [OF assms]
      split: sum.splits prod.splits)







lemma icontains_onion:
  "icontains ''Cafe Onion'' ''onion''" "icontains ''Onion Bakery'' ''onion''"
  by code_simp+

lemma similar_onion:
  "similar_places onion_db ''onion'' ''seongsu'' =
     [plain_place 1 ''Cafe Onion'' ''Seongsu'' None [], plain_place 2 ''Onion Bakery'' ''Mapo'' None []]"
  by (simp add: similar_places_def onion_db_def plain_place_def icontains_onion)



lemma rows_onion:
  "embedding_rows onion_db =
     [(unit_embedding 1, plain_place 1 ''Cafe Onion'' ''Seongsu'' None []),
      (unit_embedding 2, plain_place 2 ''Onion Bakery'' ''Mapo'' None [])]"
  by (simp add: embedding_rows_def onion_db_def place_by_id_def plain_place_def
      unit_embedding_def List.map_filter_simps)

lemma cosine_unit: "cosine_similarity [1, 0] [1, 0] = Inr 1"
  by (simp add: cosine_similarity_def py_div_def)

lemma context_onion:
  "preferred_emotions (build_user_context onion_db u) = []"
  "location_preferences (build_user_context onion_db u) = []"
  by (simp_all add: build_user_context_def Let_def saved_shops_def saved_of_user_def onion_db_def
      List.map_filter_simps tally_def sorted_by_count_desc_def)

lemma search_onion:
  "hybrid_search (\<lambda>text. Inr [1, 0]) onion_db q user (Some []) None 5 =
     Inr [(plain_place 1 ''Cafe Onion'' ''Seongsu'' None [], 1),
          (plain_place 2 ''Onion Bakery'' ''Mapo'' None [], 1)]"
  by (cases user)
     (simp_all add: hybrid_search_def embeddings_query_def rows_onion cosine_unit weighted_score_def
      sort_by_score_desc_def py_take_def unit_embedding_def Let_def emotion_weight_def
      location_weight_def context_onion plain_place_def)

lemma use_rag_onion: "should_use_rag onion_db ''onion'' ''seongsu'' [] uid"
  by (simp add: should_use_rag_def similar_onion)

lemma users_onion: "users onion_db = [7]"
  by (simp add: onion_db_def)

lemma saved_ids_onion: "saved_shop_ids onion_db u = []"
  by (simp add: saved_shop_ids_def onion_db_def)

lemma generate_onion:
  "uid = None \<or> uid = Some 7 \<Longrightarrow>
   map r_shop_id (fst (generate_smart_recommendations example_env onion_state
      ''onion'' ''seongsu'' [] uid cat 8)) = [1, 2, 1, 2]"
  apply (simp add: generate_smart_recommendations_def Let_def cache_hit_def use_rag_onion
         onion_state_def empty_cache_def split_beta)
  apply (auto simp add: get_rag_recommendations_def get_cached_emotions_def cache_hit_def
      onion_state_def empty_cache_def example_env_def lookup_user_def Let_def search_onion
      collect_results_def List.map_filter_simps place_result_def plain_place_def
      merge_supplement_def get_supplement_recommendations_def similar_onion py_take_def
      users_onion saved_ids_onion)
  done

lemma generate_smart_caches:
  assumes "cache_hit (rec_entries (st_cache st) (smart_cache_key env nm addr tags uid)) = None"
  shows "\<exists>kept. rec_entries (st_cache (snd (generate_smart_recommendations env st nm addr tags uid cat k)))
                   (smart_cache_key env nm addr tags uid) = Some kept
          \<and> fst (generate_smart_recommendations env st nm addr tags uid cat k) = py_take k kept"
  by (simp add: generate_smart_miss [OF assms] Let_def cache_set_def)

lemma generate_smart_hit:
  assumes "rec_entries (st_cache st) (smart_cache_key env nm addr tags uid) = Some v" "v \<noteq> []"
  shows "generate_smart_recommendations env st nm addr tags uid cat k = (v, st)"
  using assms by (simp add: generate_smart_recommendations_def Let_def cache_hit_def)

lemma onion_miss:
  "cache_hit (rec_entries (st_cache onion_state) key) = None"
  by (simp add: onion_state_def empty_cache_def cache_hit_def)

lemma onion_cached:
  assumes "uid = None \<or> uid = Some 7"
  shows "rec_entries (st_cache (snd (generate_smart_recommendations example_env onion_state
            ''onion'' ''seongsu'' [] uid cat 8)))
          (smart_cache_key example_env ''onion'' ''seongsu'' [] uid)
     = Some (fst (generate_smart_recommendations example_env onion_state
            ''onion'' ''seongsu'' [] uid cat 8))"
proof -
  let ?G = "generate_smart_recommendations example_env onion_state ''onion'' ''seongsu'' [] uid cat 8"
  obtain kept where k: "rec_entries (st_cache (snd ?G))
        (smart_cache_key example_env ''onion'' ''seongsu'' [] uid) = Some kept"
      and f: "fst ?G = py_take 8 kept"
    using generate_smart_caches [OF onion_miss] by blast
  have "length (map r_shop_id (fst ?G)) = 4"
    by (simp add: generate_onion [OF assms])
  then have "length (fst ?G) = 4" by simp
  with f have "kept = fst ?G" by (auto simp: py_take_def min_def split: if_splits)
  with k show ?thesis by simp
qed


section \<open>Properties of the cache keys\<close>

text \<open>
  C8.  The claim asks that two requests differing only in \<open>K\<close> or only in the category
  never share a cache entry.  The key of \<open>generate_smart_recommendations\<close> holds neither:
  after a request with the category "cafe" and \<open>K = 8\<close>, a request with the category
  "restaurant" and \<open>K = 1\<close> reads the entry of the first and returns its four results.
\<close>

theorem cache_ignores_k_and_category:
  "fst (generate_smart_recommendations example_env
          (snd (generate_smart_recommendations example_env onion_state
                  ''onion'' ''seongsu'' [] None ''cafe'' 8))
          ''onion'' ''seongsu'' [] None ''restaurant'' 1)
     = fst (generate_smart_recommendations example_env onion_state
              ''onion'' ''seongsu'' [] None ''cafe'' 8)
   \<and> map r_shop_id (fst (generate_smart_recommendations example_env onion_state
              ''onion'' ''seongsu'' [] None ''cafe'' 8)) = [1, 2, 1, 2]"
proof -
  let ?G = "generate_smart_recommendations example_env onion_state ''onion'' ''seongsu'' [] None ''cafe'' 8"
  have m: "map r_shop_id (fst ?G) = [1, 2, 1, 2]" by (rule generate_onion) simp
  then have ne: "fst ?G \<noteq> []" by auto
  have "generate_smart_recommendations example_env (snd ?G) ''onion'' ''seongsu'' [] None ''restaurant'' 1
          = (fst ?G, snd ?G)"
    by (rule generate_smart_hit [OF onion_cached ne]) simp
  with m show ?thesis by simp
qed

text \<open>
  The keys of the optimized service do hold them: the search key ends in \<open>K\<close>, the
  recommendation key hashes the category.
\<close>

lemma sibling_keys_hold_k_and_category:
  "rag_search_cache_key example_env ''onion'' None 8 \<noteq> rag_search_cache_key example_env ''onion'' None 1"
  "enhanced_rec_cache_key example_env ''onion'' ''seongsu'' [] None ''cafe''
     \<noteq> enhanced_rec_cache_key example_env ''onion'' ''seongsu'' [] None ''restaurant''"
  by code_simp+

section \<open>Properties of the failure handling\<close>

lemma merge_supplement_empty:
  "merge_supplement env d nm addr tags uid k [] = get_supplement_recommendations env d nm addr tags uid k"
  by (simp add: merge_supplement_def get_supplement_recommendations_def collect_results_def
      List.map_filter_simps)

lemma get_rag_expansion_failure:
  assumes "cache_hit (emotion_entries (st_cache st) (''emotions:'' @ py_str_int (tuple_hash env tags))) = None"
    and "expand_emotions_with_gpt env tags = Inl err"
  shows "get_rag_recommendations env st nm addr tags uid k = ([], st)"
  using assms by (simp add: get_rag_recommendations_def get_cached_emotions_def Let_def)

lemma try_rag_provider_failure:
  assumes "\<And>text. embed_text env text = Inl err"
  shows "try_rag_search env d nm addr names user k = []"
  by (simp add: try_rag_search_def hybrid_search_provider_failure [OF assms])

text \<open>
  C7, as amended.  When the embedding provider fails, or the emotion expansion fails on
  a miss of its cache, the internal path catches the exception and contributes the empty
  list; on a cache miss with the internal path chosen the call returns normally the
  first \<open>K\<close> entries of the keyword supplement, without the places saved by the user.
  The caller gets a plain list and no failure signal.
\<close>

theorem provider_failure_returns_plain_list:
  assumes "(\<forall>text. embed_text env text = Inl err)
     \<or> (cache_hit (emotion_entries (st_cache st) (''emotions:'' @ py_str_int (tuple_hash env tags))) = None
        \<and> expand_emotions_with_gpt env tags = Inl err)"
  shows "fst (get_rag_recommendations env st nm addr tags uid k) = []
    \<and> (cache_hit (rec_entries (st_cache st) (smart_cache_key env nm addr tags uid)) = None
        \<and> should_use_rag (st_db st) nm addr tags uid \<longrightarrow>
          fst (generate_smart_recommendations env st nm addr tags uid cat k) =
            py_take k (exclude_saved (st_db st) uid
              (get_supplement_recommendations env (st_db st) nm addr tags uid k)))"
proof -
  have r: "fst (get_rag_recommendations env st nm addr tags uid k) = []"
    using assms
  proof
    assume "\<forall>text. embed_text env text = Inl err"
    then show ?thesis by (simp add: get_rag_provider_failure)
  next
    assume "cache_hit (emotion_entries (st_cache st) (''emotions:'' @ py_str_int (tuple_hash env tags))) = None
        \<and> expand_emotions_with_gpt env tags = Inl err"
    then show ?thesis by (simp add: get_rag_expansion_failure)
  qed
  then show ?thesis
    by (simp add: generate_smart_miss Let_def get_rag_recommendations_db merge_supplement_empty)
qed

lemma icontains_quiet:
  "\<not> icontains ''Bakery'' ''onion''" "\<not> icontains ''Mapo'' ''yongsan''"
  by code_simp+

lemma similar_quiet: "similar_places (policy_db 3 0 0) ''onion'' ''yongsan'' = []"
  by (simp add: similar_places_def policy_db_def plain_place_def icontains_quiet)

lemma use_rag_quiet: "should_use_rag (policy_db 3 0 0) ''onion'' ''yongsan'' [] (Some 7)"
  by (simp add: should_use_rag_def saved_of_user_def policy_db_def)

lemma quiet_miss: "cache_hit (rec_entries (st_cache quiet_state) key) = None"
  by (simp add: quiet_state_def empty_cache_def cache_hit_def)

theorem provider_failure_returns_plain_list_witness:
  "fst (generate_smart_recommendations failing_env quiet_state
          ''onion'' ''yongsan'' [] (Some 7) ''cafe'' 8) = []"
proof -
  have f: "\<forall>text. embed_text failing_env text = Inl ProviderError"
    by (simp add: failing_env_def)
  have "should_use_rag (st_db quiet_state) ''onion'' ''yongsan'' [] (Some 7)"
    by (simp add: quiet_state_def use_rag_quiet)
  with provider_failure_returns_plain_list [of failing_env ProviderError quiet_state "[]",
      OF disjI1 [OF f], of "''onion''" "''yongsan''" "Some 7" 8 "''cafe''"] quiet_miss
  show ?thesis
    by (simp add: quiet_state_def get_supplement_recommendations_def similar_quiet
        collect_results_def List.map_filter_simps py_take_def)
qed

lemma rows_quiet: "embedding_rows (policy_db 3 0 0) = []"
  by (simp add: embedding_rows_def policy_db_def List.map_filter_simps)

lemma search_quiet:
  "hybrid_search (\<lambda>text. Inr [1, 0]) (policy_db 3 0 0) q user (Some []) None 5 = Inr []"
  by (cases user) (simp_all add: hybrid_search_def embeddings_query_def rows_quiet py_take_def
      sort_by_score_desc_def)

lemma db_quiet: "st_db quiet_state = policy_db 3 0 0"
  by (simp add: quiet_state_def)

lemma rag_quiet_ok:
  "get_rag_recommendations failing_env quiet_state ''onion'' ''yongsan'' [] (Some 7) 8 =
   get_rag_recommendations example_env quiet_state ''onion'' ''yongsan'' [] (Some 7) 8"
  by (simp add: get_rag_recommendations_def get_cached_emotions_def cache_hit_def
      quiet_state_def empty_cache_def example_env_def failing_env_def Let_def search_quiet
      hybrid_search_provider_failure collect_results_def List.map_filter_simps)

text \<open>
  The claim C7 as stated fails: a call whose embedding provider raises and a call whose
  search succeeds with zero results return the same empty list and leave the same state.
\<close>

theorem failure_looks_like_empty_success_counterexample:
  "embed_text failing_env (rag_query ''onion'' ''yongsan'' []) = Inl ProviderError
   \<and> hybrid_search (embed_text example_env) (policy_db 3 0 0) (rag_query ''onion'' ''yongsan'' [])
        (Some 7) (Some []) None 5 = Inr []
   \<and> fst (generate_smart_recommendations example_env quiet_state
          ''onion'' ''yongsan'' [] (Some 7) ''cafe'' 8) = []
   \<and> generate_smart_recommendations failing_env quiet_state ''onion'' ''yongsan'' [] (Some 7) ''cafe'' 8
      = generate_smart_recommendations example_env quiet_state ''onion'' ''yongsan'' [] (Some 7) ''cafe'' 8"
proof -
  have k: "smart_cache_key failing_env = smart_cache_key example_env"
    by (simp add: fun_eq_iff smart_cache_key_def failing_env_def)
  have s: "get_supplement_recommendations env (policy_db 3 0 0) ''onion'' ''yongsan'' [] uid n = []" for env uid n
    by (simp add: get_supplement_recommendations_def similar_quiet collect_results_def
        List.map_filter_simps)
  have g: "generate_smart_recommendations failing_env quiet_state ''onion'' ''yongsan'' [] (Some 7) ''cafe'' 8
      = generate_smart_recommendations example_env quiet_state ''onion'' ''yongsan'' [] (Some 7) ''cafe'' 8"
    unfolding generate_smart_miss [OF quiet_miss]
    by (simp add: Let_def rag_quiet_ok k get_rag_recommendations_db merge_supplement_def s
        db_quiet use_rag_quiet)
  have e: "fst (generate_smart_recommendations failing_env quiet_state
          ''onion'' ''yongsan'' [] (Some 7) ''cafe'' 8) = []"
    unfolding generate_smart_miss [OF quiet_miss]
    using get_rag_provider_failure [of failing_env ProviderError quiet_state]
    by (simp add: Let_def get_rag_recommendations_db merge_supplement_empty s
        db_quiet py_take_def use_rag_quiet failing_env_def)
  show ?thesis
    using g e by (simp add: failing_env_def example_env_def search_quiet)
qed

section \<open>Properties of the exclusion of saved places\<close>

lemma exclude_saved_excludes:
  "u \<noteq> 0 \<Longrightarrow> r \<in> set (exclude_saved d (Some u) rs) \<Longrightarrow> r_shop_id r \<notin> set (saved_shop_ids d u)"
  by simp

lemma st_db_cache_set: "st_db (cache_set st key v) = st_db st"
  by (simp add: cache_set_def)

lemma smart_excludes_saved:
  assumes "u \<noteq> 0"
    and "cache_hit (rec_entries (st_cache st) (smart_cache_key env nm addr tags (Some u))) = None"
  shows "\<exists>kept. rec_entries (st_cache (snd (generate_smart_recommendations env st nm addr tags (Some u) cat k)))
                  (smart_cache_key env nm addr tags (Some u)) = Some kept
       \<and> fst (generate_smart_recommendations env st nm addr tags (Some u) cat k) = py_take k kept
       \<and> (\<forall>r \<in> set kept. r_shop_id r \<notin> set (saved_shop_ids
              (st_db (snd (generate_smart_recommendations env st nm addr tags (Some u) cat k))) u))"
  using assms(1)
  by (auto simp: generate_smart_miss [OF assms(2)] Let_def cache_set_def)

lemma ultra_fast_miss:
  assumes "cache_hit (rec_entries (st_cache st) (ultra_fast_cache_key env nm addr tags uid)) = None"
  shows "generate_ultra_fast_recommendations env st nm addr tags uid cat k =
     (let basic = get_basic_google_places env st nm addr tags cat k;
          detailed = add_details_to_top_places env (snd basic) (take 3 (fst basic)) tags;
          kept = exclude_saved (st_db (snd detailed)) uid (fst detailed @ drop 3 (fst basic))
      in (py_take k kept, cache_set (snd detailed) (ultra_fast_cache_key env nm addr tags uid) kept))"
  using assms by (simp add: generate_ultra_fast_recommendations_def Let_def split_beta)

lemma ultra_fast_excludes_saved:
  assumes "u \<noteq> 0"
    and "cache_hit (rec_entries (st_cache st) (ultra_fast_cache_key env nm addr tags (Some u))) = None"
  shows "\<exists>kept. rec_entries (st_cache (snd (generate_ultra_fast_recommendations env st nm addr tags (Some u) cat k)))
                  (ultra_fast_cache_key env nm addr tags (Some u)) = Some kept
       \<and> fst (generate_ultra_fast_recommendations env st nm addr tags (Some u) cat k) = py_take k kept
       \<and> (\<forall>r \<in> set kept. r_shop_id r \<notin> set (saved_shop_ids
              (st_db (snd (generate_ultra_fast_recommendations env st nm addr tags (Some u) cat k))) u))"
  using assms(1)
  by (auto simp: ultra_fast_miss [OF assms(2)] Let_def cache_set_def)

lemma enhanced_excludes_saved:
  assumes "u \<noteq> 0"
    and "generate_enhanced_recommendations env st nm addr tags (Some u) cat k = Inr (res, st')"
  shows "\<forall>r \<in> set res. r_shop_id r \<notin> set (saved_shop_ids (st_db st') u)"
  using assms set_py_take
  by (fastforce simp: generate_enhanced_recommendations_def Let_def
      split: sum.splits if_splits prod.splits)

text \<open>
  C10, as amended.  For a request with a truthy \<open>user_id\<close>: when the smart or the
  ultra-fast service misses its cache, the list it stores in the cache holds no place
  whose \<open>shop_id\<close> is among the user's saved rows with \<open>rec = 1\<close>, and the list it returns
  is the first \<open>K\<close> entries of the stored list; the enhanced service, which has no cache,
  returns no such place either.  A cache hit returns the stored list as it is.
\<close>

theorem saved_places_excluded_on_miss:
  assumes "u \<noteq> 0"
  shows "(cache_hit (rec_entries (st_cache st) (smart_cache_key env nm addr tags (Some u))) = None \<longrightarrow>
       (\<exists>kept. rec_entries (st_cache (snd (generate_smart_recommendations env st nm addr tags (Some u) cat k)))
                  (smart_cache_key env nm addr tags (Some u)) = Some kept
         \<and> fst (generate_smart_recommendations env st nm addr tags (Some u) cat k) = py_take k kept
         \<and> (\<forall>r \<in> set kept. r_shop_id r \<notin> set (saved_shop_ids
              (st_db (snd (generate_smart_recommendations env st nm addr tags (Some u) cat k))) u))))
   \<and> (cache_hit (rec_entries (st_cache st) (ultra_fast_cache_key env nm addr tags (Some u))) = None \<longrightarrow>
       (\<exists>kept. rec_entries (st_cache (snd (generate_ultra_fast_recommendations env st nm addr tags (Some u) cat k)))
                  (ultra_fast_cache_key env nm addr tags (Some u)) = Some kept
         \<and> fst (generate_ultra_fast_recommendations env st nm addr tags (Some u) cat k) = py_take k kept
         \<and> (\<forall>r \<in> set kept. r_shop_id r \<notin> set (saved_shop_ids
              (st_db (snd (generate_ultra_fast_recommendations env st nm addr tags (Some u) cat k))) u))))
   \<and> (generate_enhanced_recommendations env st nm addr tags (Some u) cat k = Inr (res, st') \<longrightarrow>
       (\<forall>r \<in> set res. r_shop_id r \<notin> set (saved_shop_ids (st_db st') u)))"
proof (intro conjI impI)
  assume "cache_hit (rec_entries (st_cache st) (smart_cache_key env nm addr tags (Some u))) = None"
  then show "\<exists>kept. rec_entries (st_cache (snd (generate_smart_recommendations env st nm addr tags (Some u) cat k)))
                  (smart_cache_key env nm addr tags (Some u)) = Some kept
         \<and> fst (generate_smart_recommendations env st nm addr tags (Some u) cat k) = py_take k kept
         \<and> (\<forall>r \<in> set kept. r_shop_id r \<notin> set (saved_shop_ids
              (st_db (snd (generate_smart_recommendations env st nm addr tags (Some u) cat k))) u))"
    by (rule smart_excludes_saved [OF assms])
next
  assume "cache_hit (rec_entries (st_cache st) (ultra_fast_cache_key env nm addr tags (Some u))) = None"
  then show "\<exists>kept. rec_entries (st_cache (snd (generate_ultra_fast_recommendations env st nm addr tags (Some u) cat k)))
                  (ultra_fast_cache_key env nm addr tags (Some u)) = Some kept
         \<and> fst (generate_ultra_fast_recommendations env st nm addr tags (Some u) cat k) = py_take k kept
         \<and> (\<forall>r \<in> set kept. r_shop_id r \<notin> set (saved_shop_ids
              (st_db (snd (generate_ultra_fast_recommendations env st nm addr tags (Some u) cat k))) u))"
    by (rule ultra_fast_excludes_saved [OF assms])
next
  assume "generate_enhanced_recommendations env st nm addr tags (Some u) cat k = Inr (res, st')"
  then show "\<forall>r \<in> set res. r_shop_id r \<notin> set (saved_shop_ids (st_db st') u)"
    by (rule enhanced_excludes_saved [OF assms])
qed

lemma onion_saved_miss: "cache_hit (rec_entries (st_cache onion_saved_state) key) = None"
  by (simp add: onion_saved_state_def empty_cache_def cache_hit_def)

lemma smart_db_rag:
  assumes "cache_hit (rec_entries (st_cache st) (smart_cache_key env nm addr tags uid)) = None"
    and "should_use_rag (st_db st) nm addr tags uid"
  shows "st_db (snd (generate_smart_recommendations env st nm addr tags uid cat k)) = st_db st"
  using assms(2)
  by (simp add: generate_smart_miss [OF assms(1)] Let_def st_db_cache_set get_rag_recommendations_db)

lemma use_rag_onion_saved:
  "should_use_rag (st_db onion_saved_state) ''onion'' ''seongsu'' [] (Some 7)"
proof -
  have "similar_places (st_db onion_saved_state) ''onion'' ''seongsu'' = similar_places onion_db ''onion'' ''seongsu''"
    by (simp add: similar_places_def onion_saved_state_def)
  then show ?thesis by (simp add: should_use_rag_def similar_onion)
qed

theorem saved_places_excluded_on_miss_witness:
  "1 \<notin> set (map r_shop_id (fst (generate_smart_recommendations example_env onion_saved_state
           ''onion'' ''seongsu'' [] (Some 7) ''cafe'' 8)))"
proof -
  let ?G = "generate_smart_recommendations example_env onion_saved_state
           ''onion'' ''seongsu'' [] (Some 7) ''cafe'' 8"
  have db: "st_db (snd ?G) = st_db onion_saved_state"
    by (rule smart_db_rag [OF onion_saved_miss use_rag_onion_saved])
  have ids: "saved_shop_ids (st_db onion_saved_state) 7 = [1]"
    by (simp add: saved_shop_ids_def onion_saved_state_def)
  have "(7::int) \<noteq> 0" by simp
  from saved_places_excluded_on_miss [OF this, of onion_saved_state example_env
      "''onion''" "''seongsu''" "[]" "''cafe''" 8]
  obtain kept where f: "fst ?G = py_take 8 kept"
      and k: "\<forall>r \<in> set kept. r_shop_id r \<notin> set (saved_shop_ids (st_db (snd ?G)) 7)"
    using onion_saved_miss by blast
  have "set (fst ?G) \<subseteq> set kept" unfolding f by (rule set_py_take)
  with k show ?thesis by (auto simp: db ids)
qed

text \<open>
  The claim C10 as stated fails on a cache hit: user 7 asks, saves place 1, and asks
  again; the second call returns the cached list, which contains place 1.
\<close>

theorem cached_list_keeps_saved_place_counterexample:
  "map r_shop_id (fst (generate_smart_recommendations example_env onion_state_after_save
       ''onion'' ''seongsu'' [] (Some 7) ''cafe'' 8)) = [1, 2, 1, 2]
   \<and> saved_shop_ids (st_db onion_state_after_save) 7 = [1]"
proof -
  let ?G = "generate_smart_recommendations example_env onion_state ''onion'' ''seongsu'' [] (Some 7) ''cafe'' 8"
  have m: "map r_shop_id (fst ?G) = [1, 2, 1, 2]" by (rule generate_onion) simp
  then have ne: "fst ?G \<noteq> []" by auto
  have c: "rec_entries (st_cache onion_state_after_save)
             (smart_cache_key example_env ''onion'' ''seongsu'' [] (Some 7)) = Some (fst ?G)"
    using onion_cached [of "Some 7" "''cafe''"] by (simp add: onion_state_after_save_def Let_def)
  have "generate_smart_recommendations example_env onion_state_after_save
       ''onion'' ''seongsu'' [] (Some 7) ''cafe'' 8 = (fst ?G, onion_state_after_save)"
    by (rule generate_smart_hit [OF c ne])
  moreover have "saved_shop_ids (st_db onion_state_after_save) 7 = [1]"
    by (simp add: onion_state_after_save_def Let_def saved_shop_ids_def)
  ultimately show ?thesis using m by simp
qed

section \<open>The batch pass against the baseline search\<close>

















end
